theory Spec2Isabelle
  imports Main "HOL-Library.Word" "HOL-Library.Finite_Map"
begin

section \<open>Shared vocabulary\<close>

text \<open>
  The development embeds the permission decision engine (package \<^verbatim>\<open>authz\<close>, second
  part of \<^verbatim>\<open>src/pkg/ac/client/client_test.go\<close>) and the token verification engine
  (\<^verbatim>\<open>src/authn/jwks.go\<close>, \<^verbatim>\<open>src/authn/verifier.go\<close>). Go byte slices are lists of
  8-bit words, \<^verbatim>\<open>int64\<close> is a 64-bit word read with \<open>sint\<close>, Go strings are HOL strings.
\<close>

type_synonym bytes = "8 word list"

text \<open>
  Go \<^verbatim>\<open>error\<close> values. The sentinels are the package-level variables of \<^verbatim>\<open>authz\<close>,
  \<^verbatim>\<open>cache\<close>, \<^verbatim>\<open>authn\<close> and \<^verbatim>\<open>jwt\<close>; \<open>Wrapf e msg\<close> is \<^verbatim>\<open>fmt.Errorf("%w: msg", e)\<close>;
  \<open>LibError msg\<close> is an error created inside a library (gob, json, net/http, a cache
  backend, jose) that wraps none of the sentinels.
\<close>

datatype error =
    ErrMissingConfig
  | ErrMissingStackID
  | ErrMissingAction
  | ErrMissingCaller
  | ErrMissingSubject
  | ErrReadPermission
  | ErrNotFound
  | ErrParseToken
  | ErrInvalidTokenType
  | ErrInvalidSigningKey
  | ErrFetchingSigningKey
  | ErrExpiredToken
  | ErrInvalidAudience
  | JwtErrExpired
  | JwtErrInvalidAudience
  | Wrapf error string
  | LibError string

text \<open>\<^verbatim>\<open>errors.Is\<close>: the error itself or anything on its chain of wrapped errors.\<close>

fun errors_Is :: "error \<Rightarrow> error \<Rightarrow> bool" where
  "errors_Is (Wrapf e msg) target = (if Wrapf e msg = target then True else errors_Is e target)"
| "errors_Is e target = (e = target)"

section \<open>Permission sets\<close>

text \<open>
  Modelled from the spec: the type \<^verbatim>\<open>Resource\<close> and its method \<^verbatim>\<open>Scope\<close> are declared
  outside the files under \<^verbatim>\<open>src/\<close>. The spec gives a resource as the triple (kind,
  attribute, identifier) with the scope \<^verbatim>\<open>kind:attribute:identifier\<close>, or
  \<^verbatim>\<open>kind:identifier\<close> when the attribute is absent (the empty string).
\<close>

record Resource =
  Kind :: string
  Attr :: string
  ID :: string

definition Scope :: "Resource \<Rightarrow> string" where
  "Scope r =
     (if Attr r = [] then Kind r @ '':'' @ ID r
      else Kind r @ '':'' @ Attr r @ '':'' @ ID r)"

text \<open>
  \<^verbatim>\<open>type controller struct { Found bool; Scopes map[string]bool; Wildcard map[string]bool }\<close>.
  A Go map is a finite map; reading a missing key of a \<^verbatim>\<open>map[string]bool\<close> (also of a
  nil map) gives \<^verbatim>\<open>false\<close>, which \<open>lookupB\<close> writes out, and \<^verbatim>\<open>len(m) == 0\<close> says that
  the map has no key. A nil map and an empty map behave alike in every function
  modelled here and are both \<open>fmempty\<close>.
\<close>

record controller =
  Found :: bool
  Scopes :: "(string, bool) fmap"
  Wildcard :: "(string, bool) fmap"

definition lookupB :: "(string, bool) fmap \<Rightarrow> string \<Rightarrow> bool" where
  "lookupB m k = (case fmlookup m k of None \<Rightarrow> False | Some b \<Rightarrow> b)"

text \<open>The loop \<^verbatim>\<open>for _, res := range resources\<close> of \<^verbatim>\<open>controller.Check\<close>.\<close>

fun anyResourceAllowed :: "controller \<Rightarrow> Resource list \<Rightarrow> bool" where
  "anyResourceAllowed r [] = False"
| "anyResourceAllowed r (res # rest) =
     (if lookupB (Wildcard r) (Kind res) \<or> lookupB (Scopes r) (Scope res) then True
      else anyResourceAllowed r rest)"

definition controller_Check :: "controller \<Rightarrow> Resource list \<Rightarrow> bool" where
  "controller_Check r resources =
     (if \<not> Found r then False
      else if length resources = 0 then True
      else if fmdom (Scopes r) = {||} \<and> fmdom (Wildcard r) = {||} then False
      else if lookupB (Wildcard r) ''*'' then True
      else anyResourceAllowed r resources)"

text \<open>
  \<^verbatim>\<open>authzv1.ReadResponse\<close> and \<^verbatim>\<open>authzv1.ReadRequest\<close>, the messages of the remote
  permission-read call: the response carries \<^verbatim>\<open>Found\<close> and \<^verbatim>\<open>Data\<close>, a list of objects,
  each with the scope string \<^verbatim>\<open>Object\<close>.
\<close>

record ReadResponse =
  resp_Found :: bool
  resp_Data :: "string list"

record ReadRequest =
  rr_StackId :: "64 word"
  rr_Action :: string
  rr_Subject :: string

text \<open>
  \<^verbatim>\<open>newController\<close>. Its helper \<^verbatim>\<open>splitScope\<close> is declared outside \<^verbatim>\<open>src/\<close> and is taken
  as the parameter \<open>split\<close>, returning (kind, attribute, identifier).
\<close>

fun addObjects ::
  "(string \<Rightarrow> string \<times> string \<times> string) \<Rightarrow> string list \<Rightarrow> controller \<Rightarrow> controller" where
  "addObjects split [] res = res"
| "addObjects split (object # rest) res =
     (case split object of
        (kind, attr, ident) \<Rightarrow>
          if ident = ''*''
          then addObjects split rest (res\<lparr>Wildcard := fmupd kind True (Wildcard res)\<rparr>)
          else addObjects split rest (res\<lparr>Scopes := fmupd object True (Scopes res)\<rparr>))"

definition newController ::
  "(string \<Rightarrow> string \<times> string \<times> string) \<Rightarrow> ReadResponse option \<Rightarrow> controller" where
  "newController split resp =
     (case resp of
        None \<Rightarrow> \<lparr>Found = False, Scopes = fmempty, Wildcard = fmempty\<rparr>
      | Some rp \<Rightarrow>
          if \<not> resp_Found rp then \<lparr>Found = False, Scopes = fmempty, Wildcard = fmempty\<rparr>
          else addObjects split (resp_Data rp)
                 \<lparr>Found = True, Scopes = fmempty, Wildcard = fmempty\<rparr>)"

section \<open>Cache keys\<close>

text \<open>\<^verbatim>\<open>fmt.Sprintf("%d", n)\<close> for an \<^verbatim>\<open>int64\<close>: decimal digits, a minus sign when negative.\<close>

definition digitChar :: "nat \<Rightarrow> char" where
  "digitChar n = ''0123456789'' ! n"

fun formatNat :: "nat \<Rightarrow> string" where
  "formatNat n = (if n < 10 then [digitChar n] else formatNat (n div 10) @ [digitChar (n mod 10)])"

declare formatNat.simps [simp del]

definition formatInt64 :: "64 word \<Rightarrow> string" where
  "formatInt64 n = (if sint n < 0 then ''-'' @ formatNat (nat (- sint n)) else formatNat (nat (sint n)))"

definition controllerCacheKey :: "64 word \<Rightarrow> string \<Rightarrow> string \<Rightarrow> string" where
  "controllerCacheKey stackID subject action =
     ''read-'' @ formatInt64 stackID @ ''-'' @ subject @ ''-'' @ action"

section \<open>Caller claims and requests\<close>

text \<open>
  The interfaces \<^verbatim>\<open>claims.AccessClaims\<close>, \<^verbatim>\<open>claims.IdentityClaims\<close> and \<^verbatim>\<open>claims.AuthInfo\<close>
  are declared outside \<^verbatim>\<open>src/\<close>; the records hold what the methods called by the source
  return. \<^verbatim>\<open>GetAccess\<close> and \<^verbatim>\<open>GetIdentity\<close> may return nil (\<open>None\<close>), and a non-nil value
  may still answer \<^verbatim>\<open>IsNil()\<close> with true. The \<^verbatim>\<open>Caller\<close> of a request is itself a non-nil
  \<^verbatim>\<open>AuthInfo\<close>.
\<close>

record AccessClaims =
  ac_IsNil :: bool
  ac_Subject :: string
  ac_Namespace :: string
  ac_Permissions :: "string list"
  ac_DelegatedPermissions :: "string list"

record IdentityClaims =
  ic_IsNil :: bool
  ic_Subject :: string
  ic_Namespace :: string

record AuthInfo =
  GetAccess :: "AccessClaims option"
  GetIdentity :: "IdentityClaims option"

record CheckRequest =
  Caller :: AuthInfo
  StackID :: "64 word"
  Action :: string
  Resource :: "Resource option"
  Contextual :: "Resource list"

text \<open>\<^verbatim>\<open>accessClaims == nil || accessClaims.IsNil()\<close>.\<close>

definition accessAbsent :: "AccessClaims option \<Rightarrow> bool" where
  "accessAbsent a = (case a of None \<Rightarrow> True | Some c \<Rightarrow> ac_IsNil c)"

definition Validate :: "CheckRequest \<Rightarrow> bool \<Rightarrow> error option" where
  "Validate r accessTokenEnabled =
     (if sint (StackID r) \<le> 0 then Some ErrMissingStackID
      else if Action r = [] then Some ErrMissingAction
      else if accessTokenEnabled \<and> accessAbsent (GetAccess (Caller r)) then Some ErrMissingCaller
      else case GetIdentity (Caller r) of
             None \<Rightarrow> None
           | Some idClaims \<Rightarrow>
               if \<not> ic_IsNil idClaims \<and> ic_Subject idClaims = [] then Some ErrMissingSubject
               else None)"

section \<open>Collaborators of the client\<close>

text \<open>
  \<^verbatim>\<open>cache.Cache\<close> is an interface; its implementations are outside \<^verbatim>\<open>src/\<close>. A cache is a
  pair of operations over a state \<open>'s\<close> of its own. \<^verbatim>\<open>Get\<close> returns the bytes or an error,
  \<^verbatim>\<open>Set\<close> returns an optional error. The expirations passed to \<^verbatim>\<open>Set\<close> are the package
  constants \<^verbatim>\<open>cache.DefaultExpiration\<close> and \<^verbatim>\<open>cache.NoExpiration\<close>, or a duration in
  nanoseconds.
\<close>

datatype expiration = DefaultExpiration | NoExpiration | Duration int

record 's Cache =
  cache_Get :: "'s \<Rightarrow> string \<Rightarrow> (error + bytes) \<times> 's"
  cache_Set :: "'s \<Rightarrow> string \<Rightarrow> bytes \<Rightarrow> expiration \<Rightarrow> error option \<times> 's"

text \<open>
  Every interaction with a collaborator is recorded: the world is the cache's state and
  the list of interactions so far, oldest first.
\<close>

datatype event =
    EvCacheGet string
  | EvCacheSet string bytes expiration
  | EvRead ReadRequest
  | EvHttpGet string

record 's world =
  cstate :: 's
  events :: "event list"

definition do_cache_Get :: "'s Cache \<Rightarrow> string \<Rightarrow> 's world \<Rightarrow> (error + bytes) \<times> 's world" where
  "do_cache_Get c key w =
     (case cache_Get c (cstate w) key of
        (r, s') \<Rightarrow> (r, \<lparr>cstate = s', events = events w @ [EvCacheGet key]\<rparr>))"

definition do_cache_Set ::
  "'s Cache \<Rightarrow> string \<Rightarrow> bytes \<Rightarrow> expiration \<Rightarrow> 's world \<Rightarrow> error option \<times> 's world" where
  "do_cache_Set c key data exp w =
     (case cache_Set c (cstate w) key data exp of
        (r, s') \<Rightarrow> (r, \<lparr>cstate = s', events = events w @ [EvCacheSet key data exp]\<rparr>))"

text \<open>
  \<^verbatim>\<open>LegacyClientImpl\<close>: the fields the decision reads. \<open>clientV1_Read\<close> is the answer of the
  remote \<^verbatim>\<open>Read\<close> call (an error, or a response that may be nil). Tracing spans and the gRPC
  wiring do not influence the result and are left out.
\<close>

record 's LegacyClientImpl =
  accessTokenAuthEnabled :: bool
  cache :: "'s Cache"
  clientV1_Read :: "ReadRequest \<Rightarrow> error + ReadResponse option"
  namespaceFmt :: "64 word \<Rightarrow> string"

text \<open>
  Functions the client calls that are declared outside \<^verbatim>\<open>src/\<close>, taken as parameters:
  \<^verbatim>\<open>claims.NamespaceMatches\<close> (applied to either facet), \<^verbatim>\<open>splitScope\<close>, and the gob
  encoder and decoder for \<^verbatim>\<open>controller\<close> values. A gob failure is an error of the gob
  library, \<open>LibError\<close> of its message.
\<close>

record pkg =
  NamespaceMatches :: "AccessClaims + IdentityClaims \<Rightarrow> string \<Rightarrow> bool"
  splitScope :: "string \<Rightarrow> string \<times> string \<times> string"
  gobEncode :: "controller \<Rightarrow> string + bytes"
  gobDecode :: "bytes \<Rightarrow> string + controller"

section \<open>The permission decision\<close>

definition validateNamespace :: "pkg \<Rightarrow> 's LegacyClientImpl \<Rightarrow> AuthInfo \<Rightarrow> 64 word \<Rightarrow> bool" where
  "validateNamespace p c caller stackID =
     (let expectedNamespace = namespaceFmt c stackID;
          accessTokenMatch =
            (\<not> accessTokenAuthEnabled c \<or>
             (case GetAccess caller of
                None \<Rightarrow> False
              | Some accessClaims \<Rightarrow>
                  \<not> ac_IsNil accessClaims \<and> NamespaceMatches p (Inl accessClaims) expectedNamespace));
          idTokenMatch =
            (case GetIdentity caller of
               None \<Rightarrow> True
             | Some idClaims \<Rightarrow>
                 ic_IsNil idClaims \<or> NamespaceMatches p (Inr idClaims) expectedNamespace)
      in accessTokenMatch \<and> idTokenMatch)"

definition getCachedController ::
  "pkg \<Rightarrow> 's LegacyClientImpl \<Rightarrow> string \<Rightarrow> 's world \<Rightarrow>
     (controller option \<times> error option) \<times> 's world" where
  "getCachedController p c key w =
     (case do_cache_Get (cache c) key w of
        (Inl err, w') \<Rightarrow> ((None, Some err), w')
      | (Inr data, w') \<Rightarrow>
          (case gobDecode p data of
             Inl msg \<Rightarrow> ((None, Some (LibError msg)), w')
           | Inr ctrl \<Rightarrow> ((Some ctrl, None), w')))"

definition cacheController ::
  "pkg \<Rightarrow> 's LegacyClientImpl \<Rightarrow> string \<Rightarrow> controller option \<Rightarrow> 's world \<Rightarrow>
     error option \<times> 's world" where
  "cacheController p c key ctrl w =
     (case ctrl of
        None \<Rightarrow> (None, w)
      | Some ct \<Rightarrow>
          (case gobEncode p ct of
             Inl msg \<Rightarrow> (Some (LibError msg), w)
           | Inr buf \<Rightarrow> do_cache_Set (cache c) key buf DefaultExpiration w))"

text \<open>
  \<^verbatim>\<open>retrievePermissions\<close>. The context made by \<^verbatim>\<open>newOutgoingContext\<close> only forwards
  cancellation to the remote call and is left out; the remote call is recorded before
  its answer is read.
\<close>

definition retrievePermissions ::
  "pkg \<Rightarrow> 's LegacyClientImpl \<Rightarrow> 64 word \<Rightarrow> string \<Rightarrow> string \<Rightarrow> 's world \<Rightarrow>
     (controller option \<times> error option) \<times> 's world" where
  "retrievePermissions p c stackID subject action w =
     (let key = controllerCacheKey stackID subject action in
      case getCachedController p c key w of
        ((ctrl, None), w1) \<Rightarrow> ((ctrl, None), w1)
      | ((ctrl, Some err), w1) \<Rightarrow>
          if \<not> errors_Is err ErrNotFound then ((ctrl, Some err), w1)
          else
            let readReq = \<lparr>rr_StackId = stackID, rr_Action = action, rr_Subject = subject\<rparr>;
                w2 = w1\<lparr>events := events w1 @ [EvRead readReq]\<rparr>
            in case clientV1_Read c readReq of
                 Inl rpcErr \<Rightarrow> ((None, Some ErrReadPermission), w2)
               | Inr resp \<Rightarrow>
                   let res = newController (splitScope p) resp in
                   case cacheController p c key (Some res) w2 of
                     (err', w3) \<Rightarrow> ((Some res, err'), w3))"

text \<open>
  What a call gives back: the returned values, or a run-time panic (a nil pointer
  dereference).
\<close>

datatype 'a outcome = Returns 'a | Panics

text \<open>The loops \<^verbatim>\<open>for _, p := range perms { if p == req.Action { ... } }\<close>.\<close>

fun containsAction :: "string list \<Rightarrow> string \<Rightarrow> bool" where
  "containsAction [] action = False"
| "containsAction (p # rest) action = (if p = action then True else containsAction rest action)"

text \<open>The block under \<^verbatim>\<open>// No user => check on the service permissions\<close>.\<close>

definition checkService ::
  "'s LegacyClientImpl \<Rightarrow> AccessClaims option \<Rightarrow> string \<Rightarrow> bool \<times> error option" where
  "checkService c accessClaims action =
     (if \<not> accessTokenAuthEnabled c then (True, None)
      else
        case accessClaims of
          None \<Rightarrow> (False, Some ErrMissingCaller)
        | Some ac \<Rightarrow>
            if ac_IsNil ac then (False, Some ErrMissingCaller)
            else (containsAction (ac_Permissions ac) action, None))"

text \<open>
  The block under \<^verbatim>\<open>// Only check the service permissions if the access token check is
  enabled\<close>: \<open>Some\<close> of the early return, or \<open>None\<close> to go on.
\<close>

definition checkDelegated ::
  "'s LegacyClientImpl \<Rightarrow> AccessClaims option \<Rightarrow> string \<Rightarrow> (bool \<times> error option) option" where
  "checkDelegated c accessClaims action =
     (if accessTokenAuthEnabled c then
        case accessClaims of
          None \<Rightarrow> Some (False, Some ErrMissingCaller)
        | Some ac \<Rightarrow>
            if ac_IsNil ac then Some (False, Some ErrMissingCaller)
            else if containsAction (ac_DelegatedPermissions ac) action then None
            else Some (False, None)
      else None)"

definition Check ::
  "pkg \<Rightarrow> 's LegacyClientImpl \<Rightarrow> CheckRequest \<Rightarrow> 's world \<Rightarrow>
     (bool \<times> error option) outcome \<times> 's world" where
  "Check p c req w =
     (case Validate req (accessTokenAuthEnabled c) of
        Some err \<Rightarrow> (Returns (False, Some err), w)
      | None \<Rightarrow>
          if \<not> validateNamespace p c (Caller req) (StackID req) then (Returns (False, None), w)
          else
            let accessClaims = GetAccess (Caller req);
                identityClaims = GetIdentity (Caller req)
            in
            case identityClaims of
              None \<Rightarrow> (Returns (checkService c accessClaims (Action req)), w)
            | Some ic \<Rightarrow>
                if ic_IsNil ic then (Returns (checkService c accessClaims (Action req)), w)
                else
                  case checkDelegated c accessClaims (Action req) of
                    Some early \<Rightarrow> (Returns early, w)
                  | None \<Rightarrow>
                      (case retrievePermissions p c (StackID req) (ic_Subject ic) (Action req) w of
                         ((res, Some err), w') \<Rightarrow> (Returns (False, Some err), w')
                       | ((None, None), w') \<Rightarrow> (Panics, w')
                       | ((Some res, None), w') \<Rightarrow>
                           if \<not> Found res then (Returns (False, None), w')
                           else
                             case Resource req of
                               None \<Rightarrow> (Returns (True, None), w')
                             | Some primary \<Rightarrow>
                                 (Returns (controller_Check res (Contextual req @ [primary]), None),
                                  w')))"

section \<open>Key provider\<close>

text \<open>
  \<^verbatim>\<open>jose.JSONWebKey\<close>: the key identifier and the key material, which the provider never
  inspects.
\<close>

record JSONWebKey =
  jwk_KeyID :: string
  jwk_Key :: bytes

text \<open>
  What \<^verbatim>\<open>http.NewRequestWithContext\<close> followed by \<^verbatim>\<open>http.DefaultClient.Do\<close> gives for a
  URL: the request cannot be built, the round trip fails, or a response with a status
  code and a body arrives.
\<close>

datatype http_outcome =
    NewRequestError string
  | TransportError string
  | HttpResponse nat bytes

text \<open>
  Library functions of the key provider, taken as parameters: the HTTP exchange and the
  JSON codecs of \<^verbatim>\<open>jose.JSONWebKeySet\<close> and \<^verbatim>\<open>jose.JSONWebKey\<close>.
\<close>

record netpkg =
  httpGet :: "string \<Rightarrow> http_outcome"
  jsonDecodeJWKS :: "bytes \<Rightarrow> string + JSONWebKey list"
  jsonEncodeJWK :: "JSONWebKey \<Rightarrow> string + bytes"
  jsonDecodeJWK :: "bytes \<Rightarrow> string + JSONWebKey"

text \<open>
  \<^verbatim>\<open>DefaultKeyRetriever\<close>: the configured URL and the cache. The \<^verbatim>\<open>singleflight.Group\<close>
  runs the function it is given when no other call is in flight, which is every call of
  a sequential run; calls are modelled one at a time.
\<close>

record 's DefaultKeyRetriever =
  SigningKeysURL :: string
  kr_cache :: "'s Cache"

definition cacheTTL :: expiration where
  "cacheTTL = Duration (10 * 60 * 1000000000)"

definition fetchJWKS ::
  "netpkg \<Rightarrow> 's DefaultKeyRetriever \<Rightarrow> 's world \<Rightarrow> (error + JSONWebKey list) \<times> 's world" where
  "fetchJWKS n s w =
     (case httpGet n (SigningKeysURL s) of
        NewRequestError msg \<Rightarrow> (Inl (LibError msg), w)
      | TransportError msg \<Rightarrow>
          (Inl (Wrapf ErrFetchingSigningKey ''request error''),
           w\<lparr>events := events w @ [EvHttpGet (SigningKeysURL s)]\<rparr>)
      | HttpResponse status body \<Rightarrow>
          if status \<noteq> 200 then
            (Inl ErrFetchingSigningKey, w\<lparr>events := events w @ [EvHttpGet (SigningKeysURL s)]\<rparr>)
          else
            case jsonDecodeJWKS n body of
              Inl msg \<Rightarrow>
                (Inl (Wrapf ErrFetchingSigningKey ''unable to decode response''),
                 w\<lparr>events := events w @ [EvHttpGet (SigningKeysURL s)]\<rparr>)
            | Inr jwks \<Rightarrow> (Inr jwks, w\<lparr>events := events w @ [EvHttpGet (SigningKeysURL s)]\<rparr>))"

definition getCachedItem ::
  "netpkg \<Rightarrow> 's DefaultKeyRetriever \<Rightarrow> string \<Rightarrow> 's world \<Rightarrow>
     (JSONWebKey option \<times> bool) \<times> 's world" where
  "getCachedItem n s keyID w =
     (case do_cache_Get (kr_cache s) keyID w of
        (Inl err, w') \<Rightarrow> ((None, False), w')
      | (Inr data, w') \<Rightarrow>
          if length data = 0 then ((None, True), w')
          else
            case jsonDecodeJWK n data of
              Inl msg \<Rightarrow> ((None, False), w')
            | Inr jwk \<Rightarrow> ((Some jwk, True), w'))"

definition setCachedItem ::
  "netpkg \<Rightarrow> 's DefaultKeyRetriever \<Rightarrow> JSONWebKey \<Rightarrow> 's world \<Rightarrow> 's world" where
  "setCachedItem n s key w =
     (case jsonEncodeJWK n key of
        Inl msg \<Rightarrow> w
      | Inr buf \<Rightarrow> snd (do_cache_Set (kr_cache s) (jwk_KeyID key) buf NoExpiration w))"

definition setEmptyCacheItem :: "'s DefaultKeyRetriever \<Rightarrow> string \<Rightarrow> 's world \<Rightarrow> 's world" where
  "setEmptyCacheItem s keyID w = snd (do_cache_Set (kr_cache s) keyID [] cacheTTL w)"

text \<open>The loop \<^verbatim>\<open>for i := range jwks.Keys\<close> of the function given to the group.\<close>

fun setCachedItems ::
  "netpkg \<Rightarrow> 's DefaultKeyRetriever \<Rightarrow> JSONWebKey list \<Rightarrow> 's world \<Rightarrow> 's world" where
  "setCachedItems n s [] w = w"
| "setCachedItems n s (key # rest) w = setCachedItems n s rest (setCachedItem n s key w)"

text \<open>The function given to \<^verbatim>\<open>s.s.Do("fetch", ...)\<close>; only its error is used.\<close>

definition fetchAndCache ::
  "netpkg \<Rightarrow> 's DefaultKeyRetriever \<Rightarrow> 's world \<Rightarrow> error option \<times> 's world" where
  "fetchAndCache n s w =
     (case fetchJWKS n s w of
        (Inl err, w') \<Rightarrow> (Some err, w')
      | (Inr jwks, w') \<Rightarrow> (None, setCachedItems n s jwks w'))"

definition returnKey :: "JSONWebKey option \<Rightarrow> error + JSONWebKey" where
  "returnKey jwk = (case jwk of None \<Rightarrow> Inl ErrInvalidSigningKey | Some k \<Rightarrow> Inr k)"

definition DefaultKeyRetriever_Get ::
  "netpkg \<Rightarrow> 's DefaultKeyRetriever \<Rightarrow> string \<Rightarrow> 's world \<Rightarrow> (error + JSONWebKey) \<times> 's world" where
  "DefaultKeyRetriever_Get n s keyID w =
     (case getCachedItem n s keyID w of
        ((jwk, True), w1) \<Rightarrow> (returnKey jwk, w1)
      | ((jwk, False), w1) \<Rightarrow>
          (case fetchAndCache n s w1 of
             (Some err, w2) \<Rightarrow> (Inl err, w2)
           | (None, w2) \<Rightarrow>
               (case getCachedItem n s keyID w2 of
                  ((jwk', True), w3) \<Rightarrow> (returnKey jwk', w3)
                | ((jwk', False), w3) \<Rightarrow> (returnKey jwk', setEmptyCacheItem s keyID w3))))"

section \<open>Token verifier\<close>

text \<open>
  A value of \<^verbatim>\<open>ExtraHeaders map[HeaderKey]interface{}\<close> is whatever JSON value the header
  held; the type assertion \<^verbatim>\<open>.(string)\<close> succeeds on \<open>JString\<close> only. \<open>JOther\<close> stands for
  numbers, null, arrays and objects.
\<close>

datatype jsonValue = JString string | JBool bool | JOther

record Header =
  hdr_KeyID :: string
  ExtraHeaders :: "(string, jsonValue) fmap"

record JSONWebToken =
  Headers :: "Header list"
  payload :: bytes

text \<open>The loop of \<^verbatim>\<open>validType\<close>: the first header that passes makes the token pass.\<close>

fun anyHeaderValid :: "Header list \<Rightarrow> string \<Rightarrow> bool" where
  "anyHeaderValid [] typ = False"
| "anyHeaderValid (h # rest) typ =
     (case fmlookup (ExtraHeaders h) ''typ'' of
        Some (JString t) \<Rightarrow> if t = typ then True else anyHeaderValid rest typ
      | _ \<Rightarrow> True)"

definition validType :: "JSONWebToken \<Rightarrow> string \<Rightarrow> bool" where
  "validType token typ = (if typ = [] then True else anyHeaderValid (Headers token) typ)"

definition mapErr :: "error \<Rightarrow> error" where
  "mapErr err =
     (if errors_Is err JwtErrExpired then ErrExpiredToken
      else if errors_Is err JwtErrInvalidAudience then ErrInvalidAudience
      else err)"

fun getKeyID :: "Header list \<Rightarrow> error + string" where
  "getKeyID [] = Inl ErrInvalidSigningKey"
| "getKeyID (h # rest) = (if hdr_KeyID h \<noteq> [] then Inr (hdr_KeyID h) else getKeyID rest)"

text \<open>
  \<^verbatim>\<open>Claims[T]\<close>: the raw token and the decoded claims, whose content the verifier does
  not inspect itself.
\<close>

record 't Claims =
  token :: string
  decoded :: 't

text \<open>
  Functions of the jose library, taken as parameters: \<^verbatim>\<open>jwt.ParseSigned\<close>, the method
  \<^verbatim>\<open>Claims\<close> of the parsed token (signature check and decoding) and the validation of the
  decoded claims against the allowed audiences at the current time.
\<close>

record 't josepkg =
  ParseSigned :: "string \<Rightarrow> string + JSONWebToken"
  tokenClaims :: "JSONWebToken \<Rightarrow> JSONWebKey \<Rightarrow> error + 't"
  claimsValidate :: "'t \<Rightarrow> string list \<Rightarrow> error option"

text \<open>\<^verbatim>\<open>VerifierBase\<close>; \<open>keys_Get\<close> is the method \<^verbatim>\<open>Get\<close> of the \<^verbatim>\<open>KeyRetriever\<close> it holds.\<close>

record 'w VerifierBase =
  AllowedAudiences :: "string list"
  tokenType :: string
  keys_Get :: "string \<Rightarrow> 'w \<Rightarrow> (error + JSONWebKey) \<times> 'w"

definition Verify ::
  "'t josepkg \<Rightarrow> 'w VerifierBase \<Rightarrow> string \<Rightarrow> 'w \<Rightarrow> (error + 't Claims) \<times> 'w" where
  "Verify j v tok w =
     (case ParseSigned j tok of
        Inl msg \<Rightarrow> (Inl ErrParseToken, w)
      | Inr parsed \<Rightarrow>
          if \<not> validType parsed (tokenType v) then (Inl ErrInvalidTokenType, w)
          else
            case getKeyID (Headers parsed) of
              Inl err \<Rightarrow> (Inl err, w)
            | Inr keyID \<Rightarrow>
                (case keys_Get v keyID w of
                   (Inl err, w') \<Rightarrow> (Inl err, w')
                 | (Inr jwk, w') \<Rightarrow>
                     (case tokenClaims j parsed jwk of
                        Inl err \<Rightarrow> (Inl err, w')
                      | Inr cl \<Rightarrow>
                          (case claimsValidate j cl (AllowedAudiences v) of
                             Some err \<Rightarrow> (Inl (mapErr err), w')
                           | None \<Rightarrow> (Inr \<lparr>token = tok, decoded = cl\<rparr>, w')))))"

section \<open>An in-memory cache\<close>

text \<open>
  Modelled from the spec: the reference in-memory cache is declared outside \<^verbatim>\<open>src/\<close>.
  The spec gives \<^verbatim>\<open>Get\<close> as the stored bytes, or the not-found sentinel when the key is
  absent, and \<^verbatim>\<open>Set\<close> as storing the bytes. Expiry is left out. It serves to run the
  model on concrete inputs.
\<close>

definition mapCache :: "(string, bytes) fmap Cache" where
  "mapCache =
     \<lparr>cache_Get =
        (\<lambda>m key. (case fmlookup m key of None \<Rightarrow> Inl ErrNotFound | Some data \<Rightarrow> Inr data, m)),
      cache_Set = (\<lambda>m key data exp. (None, fmupd key data m))\<rparr>"

text \<open>A cache whose \<^verbatim>\<open>Get\<close> fails with the given error, as an unreachable backend does.\<close>

definition faultyCache :: "error \<Rightarrow> (string, bytes) fmap Cache" where
  "faultyCache err = mapCache\<lparr>cache_Get := (\<lambda>m key. (Inl err, m))\<rparr>"

section \<open>Concrete inputs\<close>

text \<open>
  A client over the in-memory cache for tenant 12, a calling service that holds the
  delegated permission \<^verbatim>\<open>teams:read\<close>, a user \<^verbatim>\<open>user:1\<close>, and a remote service that grants
  the user the scope \<^verbatim>\<open>teams:id:1\<close>. The codec parameters are stand-ins that map a found
  permission set to the byte 1 and read the byte 1 back as that grant.
\<close>

definition demoPkg :: pkg where
  "demoPkg =
     \<lparr>NamespaceMatches =
        (\<lambda>cl ns. (case cl of Inl a \<Rightarrow> ac_Namespace a | Inr i \<Rightarrow> ic_Namespace i) = ns),
      splitScope =
        (\<lambda>s. (takeWhile (\<lambda>x. x \<noteq> CHR '':'') s, [], rev (takeWhile (\<lambda>x. x \<noteq> CHR '':'') (rev s)))),
      gobEncode = (\<lambda>ct. Inr [if Found ct then 1 else 0]),
      gobDecode =
        (\<lambda>data. if data = [1]
                 then Inr \<lparr>Found = True, Scopes = fmupd ''teams:id:1'' True fmempty, Wildcard = fmempty\<rparr>
                 else Inl ''unexpected EOF'')\<rparr>"

definition demoClient :: "(string, bytes) fmap LegacyClientImpl" where
  "demoClient =
     \<lparr>accessTokenAuthEnabled = True,
      cache = mapCache,
      clientV1_Read = (\<lambda>rq. Inr (Some \<lparr>resp_Found = True, resp_Data = [''teams:id:1'']\<rparr>)),
      namespaceFmt = (\<lambda>n. ''stacks-'' @ formatInt64 n)\<rparr>"

definition demoCaller :: "string \<Rightarrow> AuthInfo" where
  "demoCaller ns =
     \<lparr>GetAccess = Some \<lparr>ac_IsNil = False, ac_Subject = ''svc'', ac_Namespace = ''stacks-12'',
                         ac_Permissions = [], ac_DelegatedPermissions = [''teams:read'']\<rparr>,
      GetIdentity = Some \<lparr>ic_IsNil = False, ic_Subject = ''user:1'', ic_Namespace = ns\<rparr>\<rparr>"

definition demoRequest :: CheckRequest where
  "demoRequest =
     \<lparr>Caller = demoCaller ''stacks-12'', StackID = 12, Action = ''teams:read'',
      Resource = Some \<lparr>Kind = ''teams'', Attr = ''id'', ID = ''1''\<rparr>, Contextual = []\<rparr>"

definition demoWorld :: "(string, bytes) fmap world" where
  "demoWorld = \<lparr>cstate = fmempty, events = []\<rparr>"

text \<open>A key-set endpoint that answers with the given status code, and JSON codecs that
  keep the key material as the cached bytes.\<close>

definition demoNet :: "nat \<Rightarrow> netpkg" where
  "demoNet status =
     \<lparr>httpGet = (\<lambda>url. HttpResponse status [123, 125]),
      jsonDecodeJWKS = (\<lambda>body. Inr [\<lparr>jwk_KeyID = ''k1'', jwk_Key = [7]\<rparr>]),
      jsonEncodeJWK = (\<lambda>key. Inr (jwk_Key key)),
      jsonDecodeJWK = (\<lambda>data. Inr \<lparr>jwk_KeyID = ''k1'', jwk_Key = data\<rparr>)\<rparr>"

definition demoRetriever :: "(string, bytes) fmap DefaultKeyRetriever" where
  "demoRetriever = \<lparr>SigningKeysURL = ''https://issuer/keys'', kr_cache = mapCache\<rparr>"

definition demoJose :: "jsonValue \<Rightarrow> unit josepkg" where
  "demoJose typ =
     \<lparr>ParseSigned =
        (\<lambda>tok. Inr \<lparr>Headers = [\<lparr>hdr_KeyID = ''k1'', ExtraHeaders = fmupd ''typ'' typ fmempty\<rparr>],
                      payload = []\<rparr>),
      tokenClaims = (\<lambda>parsed jwk. Inr ()),
      claimsValidate = (\<lambda>cl audiences. None)\<rparr>"

definition demoVerifier :: "unit VerifierBase" where
  "demoVerifier =
     \<lparr>AllowedAudiences = [], tokenType = ''at+jwt'',
      keys_Get = (\<lambda>keyID w. (Inr \<lparr>jwk_KeyID = keyID, jwk_Key = [7]\<rparr>, w))\<rparr>"

section \<open>Properties of the permission set evaluation\<close>

lemma anyResourceAllowed_iff:
  "anyResourceAllowed r rs =
     (\<exists>res \<in> set rs. lookupB (Wildcard r) (Kind res) \<or> lookupB (Scopes r) (Scope res))"
  by (induction rs) auto

lemma lookupB_dom: "lookupB m k \<Longrightarrow> fmdom m \<noteq> {||}"
  by (auto simp: lookupB_def split: option.splits dest: fmdomI)

text \<open>Every permission set that \<^verbatim>\<open>newController\<close> builds with a wildcard has \<open>Found\<close> set.\<close>

lemma addObjects_Found: "Found (addObjects split objs res) = Found res"
  by (induction objs arbitrary: res) (auto split: prod.splits)

lemma newController_wildcard_Found:
  "lookupB (Wildcard (newController split resp)) k \<Longrightarrow> Found (newController split resp)"
  by (auto simp: newController_def lookupB_def addObjects_Found split: option.splits if_splits)

text \<open>
  C4, as stated, fails: \<^verbatim>\<open>controller.Check\<close> tests \<^verbatim>\<open>!r.Found\<close> before anything else, so
  a permission set holding the universal wildcard but with \<open>Found\<close> false denies.
\<close>

theorem controller_Check_star_not_found_counterexample:
  "\<not> controller_Check
       \<lparr>Found = False, Scopes = fmempty, Wildcard = fmupd ''*'' True fmempty\<rparr>
       [\<lparr>Kind = ''teams'', Attr = ''id'', ID = ''1''\<rparr>]"
  by (simp add: controller_Check_def)

text \<open>
  C4, amended: for every permission set whose \<open>Found\<close> flag is true and whose wildcard set
  contains the universal wildcard kind \<^verbatim>\<open>*\<close>, \<^verbatim>\<open>controller.Check\<close> returns true for every
  list of requested resources.
\<close>

theorem controller_Check_universal_wildcard:
  assumes "Found r" and "lookupB (Wildcard r) ''*''"
  shows "controller_Check r resources"
  using assms lookupB_dom [of "Wildcard r" "''*''"]
  by (simp add: controller_Check_def)

theorem controller_Check_universal_wildcard_witness:
  "controller_Check
     \<lparr>Found = True, Scopes = fmempty, Wildcard = fmupd ''*'' True fmempty\<rparr>
     [\<lparr>Kind = ''teams'', Attr = ''id'', ID = ''1''\<rparr>, \<lparr>Kind = ''dashboards'', Attr = [], ID = ''7''\<rparr>]"
proof -
  have "Found \<lparr>Found = True, Scopes = fmempty, Wildcard = fmupd ''*'' True fmempty\<rparr>"
    by simp
  moreover have
    "lookupB (Wildcard \<lparr>Found = True, Scopes = fmempty, Wildcard = fmupd ''*'' True fmempty\<rparr>) ''*''"
    by (simp add: lookupB_def)
  ultimately show ?thesis
    by (rule controller_Check_universal_wildcard)
qed

section \<open>Properties of the permission decision\<close>

lemma containsAction_iff: "containsAction ps a = (a \<in> set ps)"
  by (induction ps) auto


lemma controller_Check_nonempty:
  assumes "Found r" and "rs \<noteq> []"
  shows "controller_Check r rs =
          (lookupB (Wildcard r) ''*'' \<or>
           (\<exists>res \<in> set rs. lookupB (Wildcard r) (Kind res) \<or> lookupB (Scopes r) (Scope res)))"
proof (cases "fmdom (Scopes r) = {||} \<and> fmdom (Wildcard r) = {||}")
  case True
  then have "\<And>k. \<not> lookupB (Wildcard r) k" "\<And>k. \<not> lookupB (Scopes r) k"
    using lookupB_dom by blast+
  with True assms show ?thesis
    by (simp add: controller_Check_def)
next
  case False
  with assms show ?thesis
    by (auto simp: controller_Check_def anyResourceAllowed_iff)
qed

lemma validate_access_present:
  "Validate req True = None \<Longrightarrow> \<exists>ac. GetAccess (Caller req) = Some ac \<and> \<not> ac_IsNil ac"
  by (auto simp: Validate_def accessAbsent_def split: if_splits option.splits)

lemma checkDelegated_passes:
  assumes "Validate req (accessTokenAuthEnabled c) = None"
    and "accessTokenAuthEnabled c \<longrightarrow>
           (\<exists>ac. GetAccess (Caller req) = Some ac \<and> Action req \<in> set (ac_DelegatedPermissions ac))"
  shows "checkDelegated c (GetAccess (Caller req)) (Action req) = None"
proof (cases "accessTokenAuthEnabled c")
  case True
  with assms(1) validate_access_present [of req] obtain ac where
    "GetAccess (Caller req) = Some ac" "\<not> ac_IsNil ac" by auto
  with True assms(2) show ?thesis
    by (auto simp: checkDelegated_def containsAction_iff)
next
  case False
  then show ?thesis by (simp add: checkDelegated_def)
qed

lemma key12: "controllerCacheKey 12 ''user:1'' ''teams:read'' = ''read-12-user:1-teams:read''"
  by (simp add: controllerCacheKey_def formatInt64_def formatNat.simps digitChar_def)

lemmas demo_defs =
  demoPkg_def demoClient_def demoCaller_def demoRequest_def demoWorld_def mapCache_def

lemmas run_defs =
  retrievePermissions_def getCachedController_def cacheController_def do_cache_Get_def
  do_cache_Set_def newController_def Let_def

lemma demo_retrieve:
  "retrievePermissions demoPkg demoClient 12 ''user:1'' ''teams:read'' demoWorld =
     ((Some \<lparr>Found = True, Scopes = fmupd ''teams:id:1'' True fmempty, Wildcard = fmempty\<rparr>, None),
      \<lparr>cstate = fmupd ''read-12-user:1-teams:read'' [1] fmempty,
       events = [EvCacheGet ''read-12-user:1-teams:read'',
                 EvRead \<lparr>rr_StackId = 12, rr_Action = ''teams:read'', rr_Subject = ''user:1''\<rparr>,
                 EvCacheSet ''read-12-user:1-teams:read'' [1] DefaultExpiration]\<rparr>)"
  by (simp add: key12 run_defs demo_defs)

text \<open>
  C1: for a request that passes validation and the namespace check, with an end-user
  identity present and a resolved permission set \<open>res\<close> (the calling service holds the
  delegated permission when access-token checking is on, and \<^verbatim>\<open>retrievePermissions\<close>
  returns \<open>res\<close> with no error), \<^verbatim>\<open>Check\<close> returns no error and denies when \<open>Found\<close> is
  false, allows when there is no primary resource, and otherwise allows exactly when the
  wildcard set holds \<^verbatim>\<open>*\<close> or some resource among the primary and the contextual ones has
  its kind in the wildcard set or its scope in the exact-scope set. A key is in a set when
  the map reads true at it.
\<close>

theorem Check_evaluates_permission_set:
  assumes valid: "Validate req (accessTokenAuthEnabled c) = None"
    and ns: "validateNamespace p c (Caller req) (StackID req)"
    and ident: "GetIdentity (Caller req) = Some ic" "\<not> ic_IsNil ic"
    and deleg: "accessTokenAuthEnabled c \<longrightarrow>
           (\<exists>ac. GetAccess (Caller req) = Some ac \<and> Action req \<in> set (ac_DelegatedPermissions ac))"
    and resolved:
      "retrievePermissions p c (StackID req) (ic_Subject ic) (Action req) w = ((Some res, None), w')"
  shows "Check p c req w =
           (Returns
              (if \<not> Found res then False
               else case Resource req of
                      None \<Rightarrow> True
                    | Some primary \<Rightarrow>
                        lookupB (Wildcard res) ''*'' \<or>
                        (\<exists>r \<in> set (primary # Contextual req).
                           lookupB (Wildcard res) (Kind r) \<or> lookupB (Scopes res) (Scope r)),
               None), w')"
proof -
  have d: "checkDelegated c (GetAccess (Caller req)) (Action req) = None"
    using valid deleg by (rule checkDelegated_passes)
  show ?thesis
  proof (cases "Found res")
    case False
    with valid ns ident d resolved show ?thesis
      by (simp add: Check_def)
  next
    case True
    show ?thesis
    proof (cases "Resource req")
      case None
      with True valid ns ident d resolved show ?thesis
        by (simp add: Check_def)
    next
      case (Some primary)
      have "controller_Check res (Contextual req @ [primary]) =
              (lookupB (Wildcard res) ''*'' \<or>
               (\<exists>r \<in> set (primary # Contextual req).
                  lookupB (Wildcard res) (Kind r) \<or> lookupB (Scopes res) (Scope r)))"
        using True by (subst controller_Check_nonempty) auto
      with Some True valid ns ident d resolved show ?thesis
        by (simp add: Check_def)
    qed
  qed
qed

theorem Check_evaluates_permission_set_witness:
  "Check demoPkg demoClient demoRequest demoWorld =
     (Returns (True, None),
      \<lparr>cstate = fmupd ''read-12-user:1-teams:read'' [1] fmempty,
       events = [EvCacheGet ''read-12-user:1-teams:read'',
                 EvRead \<lparr>rr_StackId = 12, rr_Action = ''teams:read'', rr_Subject = ''user:1''\<rparr>,
                 EvCacheSet ''read-12-user:1-teams:read'' [1] DefaultExpiration]\<rparr>) \<and>
   Check demoPkg demoClient
     (demoRequest\<lparr>Resource := Some \<lparr>Kind = ''teams'', Attr = ''id'', ID = ''2''\<rparr>\<rparr>) demoWorld =
     (Returns (False, None),
      \<lparr>cstate = fmupd ''read-12-user:1-teams:read'' [1] fmempty,
       events = [EvCacheGet ''read-12-user:1-teams:read'',
                 EvRead \<lparr>rr_StackId = 12, rr_Action = ''teams:read'', rr_Subject = ''user:1''\<rparr>,
                 EvCacheSet ''read-12-user:1-teams:read'' [1] DefaultExpiration]\<rparr>)"
proof -
  let ?ic = "\<lparr>ic_IsNil = False, ic_Subject = ''user:1'', ic_Namespace = ''stacks-12''\<rparr>"
  let ?res = "\<lparr>Found = True, Scopes = fmupd ''teams:id:1'' True fmempty, Wildcard = fmempty\<rparr>"
  let ?w' = "\<lparr>cstate = fmupd ''read-12-user:1-teams:read'' [1] fmempty,
       events = [EvCacheGet ''read-12-user:1-teams:read'',
                 EvRead \<lparr>rr_StackId = 12, rr_Action = ''teams:read'', rr_Subject = ''user:1''\<rparr>,
                 EvCacheSet ''read-12-user:1-teams:read'' [1] DefaultExpiration]\<rparr>"
  let ?req2 = "demoRequest\<lparr>Resource := Some \<lparr>Kind = ''teams'', Attr = ''id'', ID = ''2''\<rparr>\<rparr>"
  have ns: "namespaceFmt demoClient 12 = ''stacks-12''"
    by (simp add: demoClient_def formatInt64_def formatNat.simps digitChar_def)
  have a: "Check demoPkg demoClient demoRequest demoWorld = (Returns (True, None), ?w')"
    using Check_evaluates_permission_set [of demoRequest demoClient demoPkg ?ic demoWorld ?res ?w']
      demo_retrieve ns
    by (simp add: Validate_def validateNamespace_def accessAbsent_def lookupB_def Scope_def
        demoRequest_def demoCaller_def demoClient_def demoPkg_def)
  have b: "Check demoPkg demoClient ?req2 demoWorld = (Returns (False, None), ?w')"
    using Check_evaluates_permission_set [of ?req2 demoClient demoPkg ?ic demoWorld ?res ?w']
      demo_retrieve ns
    by (simp add: Validate_def validateNamespace_def accessAbsent_def lookupB_def Scope_def
        demoRequest_def demoCaller_def demoClient_def demoPkg_def)
  from a b show ?thesis by simp
qed

text \<open>
  C2: a request that passes validation but whose access claims (when access-token
  checking is enabled) or identity claims (when present) do not match the namespace
  rendered from the stack identifier gets \<^verbatim>\<open>(false, nil)\<close>, and the world is the one the
  call started in: no cache interaction, no remote call.
\<close>

theorem Check_namespace_mismatch:
  assumes valid: "Validate req (accessTokenAuthEnabled c) = None"
    and mismatch:
      "(accessTokenAuthEnabled c \<and>
          (\<exists>ac. GetAccess (Caller req) = Some ac \<and> \<not> ac_IsNil ac \<and>
                \<not> NamespaceMatches p (Inl ac) (namespaceFmt c (StackID req)))) \<or>
       (\<exists>ic. GetIdentity (Caller req) = Some ic \<and> \<not> ic_IsNil ic \<and>
             \<not> NamespaceMatches p (Inr ic) (namespaceFmt c (StackID req)))"
  shows "Check p c req w = (Returns (False, None), w)"
proof -
  from mismatch have "\<not> validateNamespace p c (Caller req) (StackID req)"
    by (auto simp: validateNamespace_def Let_def)
  with valid show ?thesis
    by (simp add: Check_def)
qed

theorem Check_namespace_mismatch_witness:
  "Validate (demoRequest\<lparr>Caller := demoCaller ''stacks-99''\<rparr>) True = None \<and>
   Check demoPkg demoClient (demoRequest\<lparr>Caller := demoCaller ''stacks-99''\<rparr>) demoWorld =
     (Returns (False, None), demoWorld)"
proof -
  have v: "Validate (demoRequest\<lparr>Caller := demoCaller ''stacks-99''\<rparr>)
             (accessTokenAuthEnabled demoClient) = None"
    by (simp add: Validate_def demo_defs accessAbsent_def)
  have m: "\<exists>ic. GetIdentity (Caller (demoRequest\<lparr>Caller := demoCaller ''stacks-99''\<rparr>)) = Some ic \<and>
             \<not> ic_IsNil ic \<and>
             \<not> NamespaceMatches demoPkg (Inr ic)
                 (namespaceFmt demoClient (StackID (demoRequest\<lparr>Caller := demoCaller ''stacks-99''\<rparr>)))"
    by (simp add: demo_defs formatInt64_def formatNat.simps digitChar_def)
  from v have "Validate (demoRequest\<lparr>Caller := demoCaller ''stacks-99''\<rparr>) True = None"
    by (simp add: demoClient_def)
  moreover note Check_namespace_mismatch [OF v disjI2, OF m, of demoWorld]
  ultimately show ?thesis by simp
qed



lemma demo_pre:
  "Validate demoRequest True = None"
  "namespaceFmt demoClient 12 = ''stacks-12''"
  by (simp_all add: Validate_def accessAbsent_def demoRequest_def demoCaller_def demoClient_def
      formatInt64_def formatNat.simps digitChar_def)

lemma demo_reach:
  "validateNamespace demoPkg demoClient (Caller demoRequest) (StackID demoRequest)"
  "GetIdentity (Caller demoRequest) =
     Some \<lparr>ic_IsNil = False, ic_Subject = ''user:1'', ic_Namespace = ''stacks-12''\<rparr>"
  "accessTokenAuthEnabled demoClient \<longrightarrow>
     (\<exists>ac. GetAccess (Caller demoRequest) = Some ac \<and>
           Action demoRequest \<in> set (ac_DelegatedPermissions ac))"
  "controllerCacheKey (StackID demoRequest) ''user:1'' (Action demoRequest) =
     ''read-12-user:1-teams:read''"
  using demo_pre(2) key12
  by (simp_all add: validateNamespace_def demoRequest_def demoCaller_def demoPkg_def)

lemma retrievePermissions_fault:
  assumes get: "cache_Get (cache c) (cstate w) (controllerCacheKey stackID subject action) = (r, s')"
    and fault:
      "(\<exists>data msg. r = Inr data \<and> gobDecode p data = Inl msg \<and> e = LibError msg) \<or>
       (r = Inl e \<and> \<not> errors_Is e ErrNotFound)"
  shows "retrievePermissions p c stackID subject action w =
           ((None, Some e),
            \<lparr>cstate = s', events = events w @ [EvCacheGet (controllerCacheKey stackID subject action)]\<rparr>)"
  using assms
  by (auto simp: retrievePermissions_def getCachedController_def do_cache_Get_def Let_def)

text \<open>
  C5: when the resolution step is reached and the cached entry's bytes fail to decode,
  or the cache's \<^verbatim>\<open>Get\<close> fails with an error that is not the not-found sentinel, \<^verbatim>\<open>Check\<close>
  returns false with that error; the only interaction is the cache \<^verbatim>\<open>Get\<close>, so no remote
  read is attempted.
\<close>

theorem Check_surfaces_cache_fault:
  assumes valid: "Validate req (accessTokenAuthEnabled c) = None"
    and ns: "validateNamespace p c (Caller req) (StackID req)"
    and ident: "GetIdentity (Caller req) = Some ic" "\<not> ic_IsNil ic"
    and deleg: "accessTokenAuthEnabled c \<longrightarrow>
           (\<exists>ac. GetAccess (Caller req) = Some ac \<and> Action req \<in> set (ac_DelegatedPermissions ac))"
    and get: "cache_Get (cache c) (cstate w)
                (controllerCacheKey (StackID req) (ic_Subject ic) (Action req)) = (r, s')"
    and fault:
      "(\<exists>data msg. r = Inr data \<and> gobDecode p data = Inl msg \<and> e = LibError msg) \<or>
       (r = Inl e \<and> \<not> errors_Is e ErrNotFound)"
  shows "Check p c req w =
           (Returns (False, Some e),
            \<lparr>cstate = s',
             events = events w @
               [EvCacheGet (controllerCacheKey (StackID req) (ic_Subject ic) (Action req))]\<rparr>)"
proof -
  have d: "checkDelegated c (GetAccess (Caller req)) (Action req) = None"
    using valid deleg by (rule checkDelegated_passes)
  have "retrievePermissions p c (StackID req) (ic_Subject ic) (Action req) w =
           ((None, Some e),
            \<lparr>cstate = s',
             events = events w @
               [EvCacheGet (controllerCacheKey (StackID req) (ic_Subject ic) (Action req))]\<rparr>)"
    using get fault by (rule retrievePermissions_fault)
  with valid ns ident d show ?thesis
    by (simp add: Check_def)
qed

theorem Check_surfaces_cache_fault_witness:
  "Check demoPkg demoClient demoRequest
     \<lparr>cstate = fmupd ''read-12-user:1-teams:read'' [9, 9] fmempty, events = []\<rparr> =
     (Returns (False, Some (LibError ''unexpected EOF'')),
      \<lparr>cstate = fmupd ''read-12-user:1-teams:read'' [9, 9] fmempty,
       events = [EvCacheGet ''read-12-user:1-teams:read'']\<rparr>) \<and>
   Check demoPkg (demoClient\<lparr>cache := faultyCache (LibError ''connection refused'')\<rparr>)
     demoRequest demoWorld =
     (Returns (False, Some (LibError ''connection refused'')),
      \<lparr>cstate = fmempty, events = [EvCacheGet ''read-12-user:1-teams:read'']\<rparr>)"
proof -
  let ?ic = "\<lparr>ic_IsNil = False, ic_Subject = ''user:1'', ic_Namespace = ''stacks-12''\<rparr>"
  let ?m = "fmupd ''read-12-user:1-teams:read'' [9, 9] fmempty"
  let ?w = "\<lparr>cstate = ?m, events = []\<rparr>"
  let ?c = "demoClient\<lparr>cache := faultyCache (LibError ''connection refused'')\<rparr>"
  have v: "Validate demoRequest (accessTokenAuthEnabled demoClient) = None"
    using demo_pre(1) by (simp add: demoClient_def)
  have g: "cache_Get (cache demoClient) (cstate ?w)
             (controllerCacheKey (StackID demoRequest) (ic_Subject ?ic) (Action demoRequest)) =
           (Inr [9, 9], ?m)"
    by (simp add: demo_reach(4) demoClient_def mapCache_def)
  have f: "\<exists>data msg. Inr [9, 9] = (Inr data :: error + bytes) \<and> gobDecode demoPkg data = Inl msg \<and>
             LibError ''unexpected EOF'' = LibError msg"
    by (simp add: demoPkg_def)
  have decode: "Check demoPkg demoClient demoRequest ?w =
     (Returns (False, Some (LibError ''unexpected EOF'')),
      \<lparr>cstate = ?m, events = [EvCacheGet ''read-12-user:1-teams:read'']\<rparr>)"
    using Check_surfaces_cache_fault [OF v demo_reach(1) demo_reach(2) _ demo_reach(3) g disjI1, OF _ f]
    by (simp add: demo_reach(4))
  have v': "Validate demoRequest (accessTokenAuthEnabled ?c) = None"
    using demo_pre(1) by (simp add: demoClient_def)
  have n': "validateNamespace demoPkg ?c (Caller demoRequest) (StackID demoRequest)"
    using demo_reach(1) by (simp add: validateNamespace_def)
  have d': "accessTokenAuthEnabled ?c \<longrightarrow>
     (\<exists>ac. GetAccess (Caller demoRequest) = Some ac \<and>
           Action demoRequest \<in> set (ac_DelegatedPermissions ac))"
    using demo_reach(3) by simp
  have g': "cache_Get (cache ?c) (cstate demoWorld)
             (controllerCacheKey (StackID demoRequest) (ic_Subject ?ic) (Action demoRequest)) =
           (Inl (LibError ''connection refused''), fmempty)"
    by (simp add: faultyCache_def demoWorld_def)
  have f': "Inl (LibError ''connection refused'') = (Inl (LibError ''connection refused'') :: error + bytes) \<and>
           \<not> errors_Is (LibError ''connection refused'') ErrNotFound"
    by simp
  have backend: "Check demoPkg ?c demoRequest demoWorld =
     (Returns (False, Some (LibError ''connection refused'')),
      \<lparr>cstate = fmempty, events = [EvCacheGet ''read-12-user:1-teams:read'']\<rparr>)"
    using Check_surfaces_cache_fault [OF v' n' demo_reach(2) _ d' g' disjI2, OF _ f']
    by (simp add: demo_reach(4) demoWorld_def)
  from decode backend show ?thesis by (rule conjI)
qed

section \<open>Properties of the cache key\<close>

lemma controllerCacheKey_shift:
  "controllerCacheKey stackID (subject @ ''-'' @ x) action =
   controllerCacheKey stackID subject (x @ ''-'' @ action)"
  by (simp add: controllerCacheKey_def)

lemma collision:
  "(1 :: 64 word, ''service-account:7'', ''read'') \<noteq> (1, ''service'', ''account:7-read'') \<and>
   controllerCacheKey 1 ''service-account:7'' ''read'' =
     controllerCacheKey 1 ''service'' ''account:7-read'' \<and>
   CHR ''-'' \<in> set ''service-account:7'' \<and> CHR ''-'' \<in> set ''account:7-read''"
  by (simp add: controllerCacheKey_def)

text \<open>
  C10: the cache key derivation is not injective. Two distinct (tenant, subject, action)
  triples, the subject of one and the action of the other containing the separator \<^verbatim>\<open>-\<close>,
  have the same key.
\<close>

theorem controllerCacheKey_not_injective:
  "\<exists>stackID subject action stackID' subject' action'.
     (stackID, subject, action) \<noteq> (stackID', subject', action') \<and>
     controllerCacheKey stackID subject action = controllerCacheKey stackID' subject' action' \<and>
     CHR ''-'' \<in> set subject \<and> CHR ''-'' \<in> set action'"
  by (intro exI) (rule collision)

text \<open>
  With the colliding keys, the second query is answered from the entry the first one
  wrote, and the remote service is not asked.
\<close>

lemma colliding_queries_share_entry:
  "retrievePermissions demoPkg demoClient 1 ''service-account:7'' ''read'' demoWorld =
     ((Some \<lparr>Found = True, Scopes = fmupd ''teams:id:1'' True fmempty, Wildcard = fmempty\<rparr>, None),
      \<lparr>cstate = fmupd ''read-1-service-account:7-read'' [1] fmempty,
       events =
         [EvCacheGet ''read-1-service-account:7-read'',
          EvRead \<lparr>rr_StackId = 1, rr_Action = ''read'', rr_Subject = ''service-account:7''\<rparr>,
          EvCacheSet ''read-1-service-account:7-read'' [1] DefaultExpiration]\<rparr>) \<and>
   retrievePermissions demoPkg demoClient 1 ''service'' ''account:7-read''
     \<lparr>cstate = fmupd ''read-1-service-account:7-read'' [1] fmempty, events = []\<rparr> =
     ((Some \<lparr>Found = True, Scopes = fmupd ''teams:id:1'' True fmempty, Wildcard = fmempty\<rparr>, None),
      \<lparr>cstate = fmupd ''read-1-service-account:7-read'' [1] fmempty,
       events = [EvCacheGet ''read-1-service-account:7-read'']\<rparr>)"
  by (simp add: run_defs demo_defs controllerCacheKey_def formatInt64_def formatNat.simps
      digitChar_def)

section \<open>Properties of the key provider\<close>

lemma fetchJWKS_failure:
  assumes "(\<exists>msg. httpGet n (SigningKeysURL s) = TransportError msg) \<or>
           (\<exists>status body. httpGet n (SigningKeysURL s) = HttpResponse status body \<and>
              (status \<noteq> 200 \<or> (\<exists>msg. jsonDecodeJWKS n body = Inl msg)))"
  shows "\<exists>e. errors_Is e ErrFetchingSigningKey \<and>
             fetchJWKS n s w = (Inl e, w\<lparr>events := events w @ [EvHttpGet (SigningKeysURL s)]\<rparr>)"
  using assms by (auto simp: fetchJWKS_def)

lemma getCachedItem_world:
  "getCachedItem n s keyID w = (r, w1) \<Longrightarrow>
     w1 = \<lparr>cstate = snd (cache_Get (kr_cache s) (cstate w) keyID),
           events = events w @ [EvCacheGet keyID]\<rparr>"
  by (auto simp: getCachedItem_def do_cache_Get_def split: prod.splits sum.splits if_splits)

text \<open>
  C7: a \<^verbatim>\<open>Get\<close> whose cache lookup misses and whose key-set fetch fails (the round trip
  fails, the status is not 200, or the body does not decode) returns an error that is
  \<^verbatim>\<open>ErrFetchingSigningKey\<close> under \<^verbatim>\<open>errors.Is\<close>. Its interactions are the cache lookup
  and the HTTP GET: nothing is written to the cache, in particular no empty placeholder
  for the requested key identifier.
\<close>

theorem Get_fetch_failure:
  assumes miss: "getCachedItem n s keyID w = ((jwk, False), w1)"
    and fail:
      "(\<exists>msg. httpGet n (SigningKeysURL s) = TransportError msg) \<or>
       (\<exists>status body. httpGet n (SigningKeysURL s) = HttpResponse status body \<and>
          (status \<noteq> 200 \<or> (\<exists>msg. jsonDecodeJWKS n body = Inl msg)))"
  shows "\<exists>e. errors_Is e ErrFetchingSigningKey \<and>
             DefaultKeyRetriever_Get n s keyID w =
               (Inl e,
                \<lparr>cstate = snd (cache_Get (kr_cache s) (cstate w) keyID),
                 events = events w @ [EvCacheGet keyID, EvHttpGet (SigningKeysURL s)]\<rparr>)"
proof -
  from fail obtain e where e: "errors_Is e ErrFetchingSigningKey"
    "fetchJWKS n s w1 = (Inl e, w1\<lparr>events := events w1 @ [EvHttpGet (SigningKeysURL s)]\<rparr>)"
    using fetchJWKS_failure [of n s w1] by blast
  have w1: "w1 = \<lparr>cstate = snd (cache_Get (kr_cache s) (cstate w) keyID),
           events = events w @ [EvCacheGet keyID]\<rparr>"
    using miss by (rule getCachedItem_world)
  have "DefaultKeyRetriever_Get n s keyID w =
          (Inl e, w1\<lparr>events := events w1 @ [EvHttpGet (SigningKeysURL s)]\<rparr>)"
    using miss e(2) by (simp add: DefaultKeyRetriever_Get_def fetchAndCache_def)
  with e(1) w1 show ?thesis by auto
qed

lemmas get_defs =
  DefaultKeyRetriever_Get_def fetchAndCache_def fetchJWKS_def getCachedItem_def do_cache_Get_def
  do_cache_Set_def setCachedItem_def setEmptyCacheItem_def returnKey_def

theorem Get_fetch_failure_witness:
  "(\<exists>e. errors_Is e ErrFetchingSigningKey \<and>
        DefaultKeyRetriever_Get (demoNet 503) demoRetriever ''k1'' demoWorld =
          (Inl e,
           \<lparr>cstate = fmempty,
            events = [EvCacheGet ''k1'', EvHttpGet ''https://issuer/keys'']\<rparr>)) \<and>
   DefaultKeyRetriever_Get (demoNet 503) demoRetriever ''k1''
     \<lparr>cstate = fmempty, events = [EvCacheGet ''k1'', EvHttpGet ''https://issuer/keys'']\<rparr> =
     (Inl ErrFetchingSigningKey,
      \<lparr>cstate = fmempty,
       events = [EvCacheGet ''k1'', EvHttpGet ''https://issuer/keys'',
                 EvCacheGet ''k1'', EvHttpGet ''https://issuer/keys'']\<rparr>)"
proof -
  have m: "getCachedItem (demoNet 503) demoRetriever ''k1'' demoWorld =
             ((None, False), \<lparr>cstate = fmempty, events = [EvCacheGet ''k1'']\<rparr>)"
    by (simp add: getCachedItem_def do_cache_Get_def demoRetriever_def mapCache_def demoWorld_def)
  have f: "\<exists>status body. httpGet (demoNet 503) (SigningKeysURL demoRetriever) =
             HttpResponse status body \<and>
             (status \<noteq> 200 \<or> (\<exists>msg. jsonDecodeJWKS (demoNet 503) body = Inl msg))"
    by (simp add: demoNet_def)
  have first: "\<exists>e. errors_Is e ErrFetchingSigningKey \<and>
        DefaultKeyRetriever_Get (demoNet 503) demoRetriever ''k1'' demoWorld =
          (Inl e,
           \<lparr>cstate = fmempty,
            events = [EvCacheGet ''k1'', EvHttpGet ''https://issuer/keys'']\<rparr>)"
    using Get_fetch_failure [OF m disjI2, OF f]
    by (simp add: demoRetriever_def mapCache_def demoWorld_def)
  have again: "DefaultKeyRetriever_Get (demoNet 503) demoRetriever ''k1''
     \<lparr>cstate = fmempty, events = [EvCacheGet ''k1'', EvHttpGet ''https://issuer/keys'']\<rparr> =
     (Inl ErrFetchingSigningKey,
      \<lparr>cstate = fmempty,
       events = [EvCacheGet ''k1'', EvHttpGet ''https://issuer/keys'',
                 EvCacheGet ''k1'', EvHttpGet ''https://issuer/keys'']\<rparr>)"
    by (simp add: get_defs demoNet_def demoRetriever_def mapCache_def)
  from first again show ?thesis by (rule conjI)
qed

section \<open>Properties of the token verifier\<close>

text \<open>
  What \<^verbatim>\<open>validType\<close> decides for a token with one header and a configured type: a string
  \<^verbatim>\<open>typ\<close> must equal the type; an absent \<^verbatim>\<open>typ\<close>, and also a \<^verbatim>\<open>typ\<close> that is not a string,
  passes.
\<close>

lemma validType_single_header:
  "typ \<noteq> [] \<Longrightarrow>
     validType \<lparr>Headers = [h], payload = b\<rparr> typ =
       (case fmlookup (ExtraHeaders h) ''typ'' of Some (JString t) \<Rightarrow> t = typ | _ \<Rightarrow> True)"
  by (simp add: validType_def split: option.splits jsonValue.splits)

text \<open>
  C8: the code at a token whose only header carries \<^verbatim>\<open>"typ": 1\<close>, presented to a verifier
  configured for \<^verbatim>\<open>at+jwt\<close>: the type check passes and \<^verbatim>\<open>Verify\<close> returns the claims,
  where a present \<^verbatim>\<open>typ\<close> header that differs from the configured type is to be rejected
  with \<^verbatim>\<open>ErrInvalidTokenType\<close>.
\<close>

theorem Verify_accepts_non_string_typ:
  "validType
     \<lparr>Headers = [\<lparr>hdr_KeyID = ''k1'', ExtraHeaders = fmupd ''typ'' JOther fmempty\<rparr>], payload = []\<rparr>
     ''at+jwt'' \<and>
   Verify (demoJose JOther) demoVerifier ''raw'' () = (Inr \<lparr>token = ''raw'', decoded = ()\<rparr>, ())"
  by (simp add: Verify_def validType_def demoJose_def demoVerifier_def)

end
